theory Spec2Isabelle
  imports Main "HOL-Library.AList"
begin

section \<open>JavaScript values used by the program\<close>

text \<open>
  A TypeScript \<open>string\<close> is a \<open>string\<close>; an optional field (\<open>id?: string\<close>) is an
  \<open>option\<close>, \<open>None\<close> standing for \<open>undefined\<close>. A string is truthy when it is not empty.
  A \<open>number\<close> is an integer or \<open>NaN\<close> (what \<open>parseInt\<close> and \<open>Date.getTime\<close> produce);
  fractional numbers are outside the model. The program's numbers are doubles: \<open>Num i\<close>
  stands for the number \<open>i\<close> exactly when \<open>i\<close> is a safe integer, of magnitude at most
  \<open>MAX_SAFE_INTEGER\<close>. Beyond that range a double rounds and prints in another form, which
  the model does not follow; every statement about the string form of a number carries
  the bound.
\<close>

datatype number = NaN | Num int

text \<open>\<open>Number.MAX_SAFE_INTEGER\<close>, that is \<open>2^53 - 1\<close>.\<close>

definition MAX_SAFE_INTEGER :: int where
  "MAX_SAFE_INTEGER = 9007199254740991"

text \<open>\<open>!n\<close> for a number: \<open>NaN\<close> and \<open>0\<close> are falsy.\<close>

definition falsy_number :: "number \<Rightarrow> bool" where
  "falsy_number n = (case n of NaN \<Rightarrow> True | Num i \<Rightarrow> i = 0)"

text \<open>\<open>a < b\<close> on numbers: every comparison with \<open>NaN\<close> is false.\<close>

definition number_less :: "number \<Rightarrow> number \<Rightarrow> bool" where
  "number_less a b = (case a of NaN \<Rightarrow> False | Num i \<Rightarrow> (case b of NaN \<Rightarrow> False | Num j \<Rightarrow> i < j))"

definition digit_char :: "nat \<Rightarrow> char" where
  "digit_char d = ''0123456789'' ! d"

fun digits :: "nat \<Rightarrow> string" where
  "digits n = (if n < 10 then [digit_char n] else digits (n div 10) @ [digit_char (n mod 10)])"

declare digits.simps [simp del]

text \<open>
  \<open>Number.prototype.toString\<close> on a safe integer: its decimal digits, with a sign. (From
  \<open>1e21\<close> on the runtime prints an exponent, and between \<open>2^53\<close> and \<open>1e21\<close> the shortest
  digits that read back as the same double; the definition is used below that range
  only.)
\<close>

definition toString :: "int \<Rightarrow> string" where
  "toString i = (if i < 0 then CHR ''-'' # digits (nat (- i)) else digits (nat i))"

definition number_toString :: "number \<Rightarrow> string" where
  "number_toString n = (case n of NaN \<Rightarrow> ''NaN'' | Num i \<Rightarrow> toString i)"

text \<open>Reading a digit string back, to state that \<open>toString\<close> is the decimal form.\<close>

definition digit_val :: "char \<Rightarrow> nat" where
  "digit_val c = of_char c - 48"

definition parse_digits :: "string \<Rightarrow> nat" where
  "parse_digits s = foldl (\<lambda>a c. 10 * a + digit_val c) 0 s"

definition read_decimal :: "string \<Rightarrow> int" where
  "read_decimal s =
     (case s of
        [] \<Rightarrow> 0
      | c # r \<Rightarrow> if c = CHR ''-'' then - int (parse_digits r) else int (parse_digits s))"

text \<open>
  \<open>String.prototype.trim\<close> removes white space and line terminators at both ends. A
  \<open>char\<close> stands for a code unit below 256: tab, line feed, vertical tab, form feed,
  carriage return, space and the no-break space.
\<close>

definition isWhiteSpace :: "char \<Rightarrow> bool" where
  "isWhiteSpace c = (c \<in> set [CHR 0x09, CHR 0x0A, CHR 0x0B, CHR 0x0C, CHR 0x0D, CHR 0x20, CHR 0xA0])"

definition trim :: "string \<Rightarrow> string" where
  "trim s = rev (dropWhile isWhiteSpace (rev (dropWhile isWhiteSpace s)))"

definition isDigit :: "char \<Rightarrow> bool" where
  "isDigit c = (c \<in> set ''0123456789'')"

text \<open>
  \<open>parseInt(s, 10)\<close>: leading white space is skipped, a sign is read, then the longest
  run of decimal digits; with no digit the result is \<open>NaN\<close>. The result is the value of the
  digits when that is a safe integer; a longer run is rounded to a double by the runtime,
  which the model does not follow.
\<close>

definition parseInt :: "string \<Rightarrow> number" where
  "parseInt s =
     (let t = dropWhile isWhiteSpace s;
          neg = (case t of [] \<Rightarrow> False | c # r \<Rightarrow> c = CHR ''-'');
          u = (case t of [] \<Rightarrow> [] | c # r \<Rightarrow> if c = CHR ''-'' \<or> c = CHR ''+'' then r else t);
          ds = takeWhile isDigit u
      in if ds = [] then NaN
         else Num (if neg then - int (parse_digits ds) else int (parse_digits ds)))"

text \<open>\<open>a || b\<close> where \<open>a\<close> is a table lookup: \<open>b\<close> when \<open>a\<close> is undefined or empty.\<close>

definition or_else :: "string option \<Rightarrow> string \<Rightarrow> string" where
  "or_else a b = (case a of None \<Rightarrow> b | Some s \<Rightarrow> if s = [] then b else s)"

text \<open>
  A table of the constants is an object literal, and \<open>table[key]\<close> with a string key also
  finds the members every object inherits from \<open>Object.prototype\<close>: a function, or for
  \<open>__proto__\<close> the prototype object, all of them truthy. The value of such a lookup is a
  string of the table or the inherited member of that name.
\<close>

datatype jsvalue = Str string | Inherited string

definition Object_prototype_names :: "string list" where
  "Object_prototype_names =
     [''constructor'', ''__defineGetter__'', ''__defineSetter__'', ''hasOwnProperty'',
      ''__lookupGetter__'', ''__lookupSetter__'', ''isPrototypeOf'', ''propertyIsEnumerable'',
      ''toString'', ''valueOf'', ''__proto__'', ''toLocaleString'']"

text \<open>\<open>table[key]\<close>: the table's own entry, else the inherited member, else undefined.\<close>

definition property :: "(string \<rightharpoonup> string) \<Rightarrow> string \<Rightarrow> jsvalue option" where
  "property table key =
     (case table key of
        Some v \<Rightarrow> Some (Str v)
      | None \<Rightarrow> if key \<in> set Object_prototype_names then Some (Inherited key) else None)"

text \<open>\<open>a || b\<close> on such values: \<open>b\<close> when \<open>a\<close> is undefined or the empty string.\<close>

definition or_else_value :: "jsvalue option \<Rightarrow> jsvalue \<Rightarrow> jsvalue" where
  "or_else_value a b =
     (case a of
        None \<Rightarrow> b
      | Some x \<Rightarrow> (case x of Str s \<Rightarrow> if s = [] then b else Str s | Inherited k \<Rightarrow> Inherited k))"

section \<open>The task model (task.model.ts)\<close>

text \<open>
  \<open>TaskStatus\<close> is a string enum; at run time a status is the string the backend sent,
  so it is a \<open>string\<close> here and the three members are constants. The fields of a task
  have the types the interface declares: the required ones are always present, the
  optional ones may be \<open>undefined\<close>.
\<close>

type_synonym TaskStatus = string

definition TODO :: TaskStatus where "TODO = ''TODO''"
definition IN_PROGRESS :: TaskStatus where "IN_PROGRESS = ''IN_PROGRESS''"
definition DONE :: TaskStatus where "DONE = ''DONE''"

record Task =
  task_id :: "string option"
  title :: string
  description :: string
  status :: TaskStatus
  priority :: number
  dueDate :: "string option"
  createdAt :: "string option"
  updatedAt :: "string option"

record TaskFilterParams =
  status_param :: "TaskStatus option"
  priority_param :: "number option"
  dueDateFrom_param :: "string option"
  dueDateTo_param :: "string option"
  search_param :: "string option"
  sortBy_param :: "string option"
  sortDirection_param :: "string option"

section \<open>The constants table (task.constants.ts)\<close>

definition PRIORITY_MIN :: number where "PRIORITY_MIN = Num 1"
definition PRIORITY_MAX :: number where "PRIORITY_MAX = Num 5"
definition PRIORITY_DEFAULT :: number where "PRIORITY_DEFAULT = Num 3"

definition PRIORITY_LABELS :: "number \<rightharpoonup> string" where
  "PRIORITY_LABELS = map_of
     [(Num 1, ''Critical''), (Num 2, ''High''), (Num 3, ''Medium''), (Num 4, ''Low''),
      (Num 5, ''Very Low'')]"

definition PRIORITY_ICONS :: "number \<rightharpoonup> string" where
  "PRIORITY_ICONS = map_of
     [(Num 1, ''bi bi-exclamation-circle-fill''), (Num 2, ''bi bi-exclamation-triangle-fill''),
      (Num 3, ''bi bi-info-circle-fill''), (Num 4, ''bi bi-dash-circle-fill''),
      (Num 5, ''bi bi-circle-fill'')]"

definition PRIORITY_CLASSES :: "number \<rightharpoonup> string" where
  "PRIORITY_CLASSES = map_of
     [(Num 1, ''bg-priority-critical''), (Num 2, ''bg-priority-high''),
      (Num 3, ''bg-priority-medium''), (Num 4, ''bg-priority-low''),
      (Num 5, ''bg-priority-very-low'')]"

text \<open>
  The status tables are given by their own entries; \<open>property\<close> looks them up. The keys of
  the priority tables are numbers: the property name is the number's string form, which is
  one of \<open>1\<close> to \<open>5\<close> for these five numbers only and never the name of an inherited
  member.
\<close>

definition STATUS_LABELS :: "TaskStatus \<rightharpoonup> string" where
  "STATUS_LABELS = map_of
     [(''TODO'', ''To Do''), (''IN_PROGRESS'', ''In Progress''), (''DONE'', ''Done'')]"

definition STATUS_ICONS :: "TaskStatus \<rightharpoonup> string" where
  "STATUS_ICONS = map_of
     [(''TODO'', ''bi bi-clipboard''), (''IN_PROGRESS'', ''bi bi-arrow-repeat''),
      (''DONE'', ''bi bi-check-circle-fill'')]"

definition STATUS_CLASSES :: "TaskStatus \<rightharpoonup> string" where
  "STATUS_CLASSES = map_of
     [(''TODO'', ''bg-status-todo''), (''IN_PROGRESS'', ''bg-status-in-progress''),
      (''DONE'', ''bg-status-done'')]"

definition TITLE_MAX_LENGTH :: nat where "TITLE_MAX_LENGTH = 200"
definition DESCRIPTION_MAX_LENGTH :: nat where "DESCRIPTION_MAX_LENGTH = 1000"

definition SORT_BY :: string where "SORT_BY = ''priority''"
definition SORT_DIRECTION :: string where "SORT_DIRECTION = ''asc''"

definition LOAD_FAILED :: string where "LOAD_FAILED = ''Failed to load tasks. Please try again.''"
definition CREATE_FAILED :: string where "CREATE_FAILED = ''Failed to create task. Please try again.''"
definition UPDATE_FAILED :: string where "UPDATE_FAILED = ''Failed to update task. Please try again.''"
definition DELETE_FAILED :: string where "DELETE_FAILED = ''Failed to delete task. Please try again.''"
definition TITLE_REQUIRED :: string where "TITLE_REQUIRED = ''Title is required''"
definition TITLE_TOO_LONG :: string where "TITLE_TOO_LONG = ''Title must be less than 200 characters''"
definition DESCRIPTION_REQUIRED :: string where "DESCRIPTION_REQUIRED = ''Description is required''"
definition STATUS_REQUIRED :: string where "STATUS_REQUIRED = ''Status is required''"
definition PRIORITY_INVALID :: string where "PRIORITY_INVALID = ''Priority must be between 1 and 5''"

section \<open>The API client (task.service.ts)\<close>

text \<open>
  \<open>HttpParams\<close> is an ordered list of name and value; \<open>set\<close> replaces the value of a
  name that is there and appends one that is not.
\<close>

type_synonym HttpParams = "(string \<times> string) list"

definition params_set :: "HttpParams \<Rightarrow> string \<Rightarrow> string \<Rightarrow> HttpParams" where
  "params_set ps k v = AList.update k v ps"

definition params_get :: "HttpParams \<Rightarrow> string \<Rightarrow> string option" where
  "params_get ps k = map_of ps k"

datatype http_method = GET | POST | PUT | DELETE

record http_request =
  req_method :: http_method
  req_url :: string
  req_params :: HttpParams
  req_body :: "Task option"

text \<open>
  Modelled from the spec: \<open>environment.apiUrl\<close> (environments/environment.ts is not among
  the sources); section 6 gives the base path, the tests the host.
\<close>

definition environment_apiUrl :: string where
  "environment_apiUrl = ''http://localhost:8080/api/v1''"

definition apiUrl :: string where
  "apiUrl = environment_apiUrl @ ''/tasks''"

text \<open>\<open>if (v) params = params.set(k, v)\<close> for an optional string field.\<close>

definition set_if_truthy :: "string \<Rightarrow> string option \<Rightarrow> HttpParams \<Rightarrow> HttpParams" where
  "set_if_truthy k v ps =
     (case v of None \<Rightarrow> ps | Some s \<Rightarrow> if s \<noteq> [] then params_set ps k s else ps)"

text \<open>\<open>if (v !== undefined) params = params.set(k, v.toString())\<close> for the priority.\<close>

definition set_if_defined :: "string \<Rightarrow> number option \<Rightarrow> HttpParams \<Rightarrow> HttpParams" where
  "set_if_defined k v ps =
     (case v of None \<Rightarrow> ps | Some n \<Rightarrow> params_set ps k (number_toString n))"

definition getAllTasks_params :: "TaskFilterParams option \<Rightarrow> HttpParams" where
  "getAllTasks_params filters =
     (case filters of
        None \<Rightarrow> []
      | Some f \<Rightarrow>
          set_if_truthy ''sortDirection'' (sortDirection_param f)
           (set_if_truthy ''sortBy'' (sortBy_param f)
            (set_if_truthy ''search'' (search_param f)
             (set_if_truthy ''dueDateTo'' (dueDateTo_param f)
              (set_if_truthy ''dueDateFrom'' (dueDateFrom_param f)
               (set_if_defined ''priority'' (priority_param f)
                (set_if_truthy ''status'' (status_param f) [])))))))"

definition TaskService_getAllTasks :: "TaskFilterParams option \<Rightarrow> http_request" where
  "TaskService_getAllTasks filters =
     \<lparr>req_method = GET, req_url = apiUrl, req_params = getAllTasks_params filters,
      req_body = None\<rparr>"

definition TaskService_getTaskById :: "string \<Rightarrow> http_request" where
  "TaskService_getTaskById i =
     \<lparr>req_method = GET, req_url = apiUrl @ ''/'' @ i, req_params = [], req_body = None\<rparr>"

definition TaskService_createTask :: "Task \<Rightarrow> http_request" where
  "TaskService_createTask t =
     \<lparr>req_method = POST, req_url = apiUrl, req_params = [], req_body = Some t\<rparr>"

definition TaskService_updateTask :: "string \<Rightarrow> Task \<Rightarrow> http_request" where
  "TaskService_updateTask i t =
     \<lparr>req_method = PUT, req_url = apiUrl @ ''/'' @ i, req_params = [], req_body = Some t\<rparr>"

definition TaskService_deleteTask :: "string \<Rightarrow> http_request" where
  "TaskService_deleteTask i =
     \<lparr>req_method = DELETE, req_url = apiUrl @ ''/'' @ i, req_params = [], req_body = None\<rparr>"

text \<open>
  The value a set (truthy) optional string field contributes to the query: itself; an
  absent or empty field contributes nothing. This follows the specification's wording
  and is compared with \<open>getAllTasks_params\<close>.
\<close>

definition set_value :: "string option \<Rightarrow> string option" where
  "set_value v = (case v of None \<Rightarrow> None | Some s \<Rightarrow> if s = [] then None else Some s)"

section \<open>The list controller (task-list.component.ts)\<close>

text \<open>
  The component's fields, followed by what it does to its surroundings: the HTTP
  requests in flight, each with the subscriber that will handle its response, the
  \<open>alert\<close> and \<open>confirm\<close> dialogs shown, and the lines of \<open>console.error\<close>. The private
  subject \<open>destroy$\<close> is the flag \<open>destroyed\<close>: whether it has fired and completed.
\<close>

datatype subscriber = LoadSub | SaveSub | DeleteSub

record TaskListComponent =
  tasks :: "Task list"
  filteredTasks :: "Task list"
  filterStatus :: string
  filterPriority :: string
  searchQuery :: string
  dueDateFrom :: string
  dueDateTo :: string
  sortBy :: string
  sortDirection :: string
  showModal :: bool
  isEditMode :: bool
  currentTask :: Task
  showDetailsModal :: bool
  selectedTask :: "Task option"
  loading :: bool
  error :: string
  destroyed :: bool
  http_pending :: "(subscriber \<times> http_request) list"
  alerts :: "string list"
  confirms :: "string list"
  console_errors :: "(string \<times> string) list"

text \<open>
  The response to a request: the body of a successful one is given as a task list
  (only the subscriber of \<open>loadTasks\<close> reads it), a failed one carries its cause.
\<close>

datatype response = Success "Task list" | Failure string

definition getEmptyTask :: Task where
  "getEmptyTask =
     \<lparr>task_id = None, title = [], description = [], status = TODO,
      priority = PRIORITY_DEFAULT, dueDate = Some [], createdAt = None, updatedAt = None\<rparr>"

definition init :: TaskListComponent where
  "init =
     \<lparr>tasks = [], filteredTasks = [], filterStatus = [], filterPriority = [],
      searchQuery = [], dueDateFrom = [], dueDateTo = [], sortBy = SORT_BY,
      sortDirection = SORT_DIRECTION, showModal = False, isEditMode = False,
      currentTask = getEmptyTask, showDetailsModal = False, selectedTask = None,
      loading = False, error = [], destroyed = False, http_pending = [], alerts = [],
      confirms = [], console_errors = []\<rparr>"

definition truthy_param :: "string \<Rightarrow> string option" where
  "truthy_param s = (if s \<noteq> [] then Some s else None)"

definition buildFilterParams :: "TaskListComponent \<Rightarrow> TaskFilterParams" where
  "buildFilterParams c =
     \<lparr>status_param = truthy_param (filterStatus c),
      priority_param = (if filterPriority c \<noteq> [] then Some (parseInt (filterPriority c)) else None),
      dueDateFrom_param = truthy_param (dueDateFrom c),
      dueDateTo_param = truthy_param (dueDateTo c),
      search_param = truthy_param (searchQuery c),
      sortBy_param = truthy_param (sortBy c),
      sortDirection_param = truthy_param (sortDirection c)\<rparr>"

text \<open>\<open>finalize(() => this.loading = false)\<close>: runs after the handler, on either outcome.\<close>

definition finalize :: "TaskListComponent \<Rightarrow> TaskListComponent" where
  "finalize c = c\<lparr>loading := False\<rparr>"

definition subscribe :: "subscriber \<Rightarrow> http_request \<Rightarrow> TaskListComponent \<Rightarrow> TaskListComponent" where
  "subscribe sub req c = c\<lparr>http_pending := http_pending c @ [(sub, req)]\<rparr>"

definition loadTasks :: "TaskListComponent \<Rightarrow> TaskListComponent" where
  "loadTasks c =
     (let c1 = c\<lparr>loading := True, error := []\<rparr>;
          filters = buildFilterParams c1
      in subscribe LoadSub (TaskService_getAllTasks (Some filters)) c1)"

definition loadTasks_complete :: "response \<Rightarrow> TaskListComponent \<Rightarrow> TaskListComponent" where
  "loadTasks_complete r c =
     finalize
      (case r of
         Success data \<Rightarrow> c\<lparr>tasks := data, filteredTasks := data\<rparr>
       | Failure err \<Rightarrow>
           c\<lparr>error := LOAD_FAILED,
             console_errors := console_errors c @ [(''Error loading tasks:'', err)]\<rparr>)"

definition applyFilters :: "TaskListComponent \<Rightarrow> TaskListComponent" where
  "applyFilters c = loadTasks c"

definition clearFilters :: "TaskListComponent \<Rightarrow> TaskListComponent" where
  "clearFilters c =
     loadTasks
      (c\<lparr>filterStatus := [], filterPriority := [], searchQuery := [], dueDateFrom := [],
         dueDateTo := [], sortBy := SORT_BY, sortDirection := SORT_DIRECTION\<rparr>)"

definition openCreateModal :: "TaskListComponent \<Rightarrow> TaskListComponent" where
  "openCreateModal c = c\<lparr>isEditMode := False, currentTask := getEmptyTask, showModal := True\<rparr>"

definition openEditModal :: "Task \<Rightarrow> TaskListComponent \<Rightarrow> TaskListComponent" where
  "openEditModal task c = c\<lparr>isEditMode := True, currentTask := task, showModal := True\<rparr>"

definition closeModal :: "TaskListComponent \<Rightarrow> TaskListComponent" where
  "closeModal c = c\<lparr>showModal := False, currentTask := getEmptyTask, error := []\<rparr>"

definition alert :: "string \<Rightarrow> TaskListComponent \<Rightarrow> TaskListComponent" where
  "alert msg c = c\<lparr>alerts := alerts c @ [msg]\<rparr>"

definition validateTask :: "TaskListComponent \<Rightarrow> bool \<times> TaskListComponent" where
  "validateTask c =
     (let t = currentTask c in
      if trim (title t) = [] then (False, alert TITLE_REQUIRED c)
      else if length (title t) > TITLE_MAX_LENGTH then (False, alert TITLE_TOO_LONG c)
      else if trim (description t) = [] then (False, alert DESCRIPTION_REQUIRED c)
      else if status t = [] then (False, alert STATUS_REQUIRED c)
      else if falsy_number (priority t) \<or> number_less (priority t) PRIORITY_MIN
              \<or> number_less PRIORITY_MAX (priority t)
           then (False, alert PRIORITY_INVALID c)
      else (True, c))"

text \<open>
  \<open>this.isEditMode && this.currentTask.id ? updateTask(id, task) : createTask(task)\<close>:
  the request \<open>saveTask\<close> chooses.
\<close>

definition save_operation :: "TaskListComponent \<Rightarrow> http_request" where
  "save_operation c =
     (if isEditMode c
      then (case task_id (currentTask c) of
              None \<Rightarrow> TaskService_createTask (currentTask c)
            | Some i \<Rightarrow>
                if i \<noteq> [] then TaskService_updateTask i (currentTask c)
                else TaskService_createTask (currentTask c))
      else TaskService_createTask (currentTask c))"

definition saveTask :: "TaskListComponent \<Rightarrow> TaskListComponent" where
  "saveTask c =
     (case validateTask c of
        (False, c1) \<Rightarrow> c1
      | (True, c1) \<Rightarrow>
          (let c2 = c1\<lparr>loading := True\<rparr>
           in subscribe SaveSub (save_operation c2) c2))"

definition saveTask_complete :: "response \<Rightarrow> TaskListComponent \<Rightarrow> TaskListComponent" where
  "saveTask_complete r c =
     finalize
      (case r of
         Success data \<Rightarrow> closeModal (loadTasks c)
       | Failure err \<Rightarrow>
           c\<lparr>error := (if isEditMode c then UPDATE_FAILED else CREATE_FAILED),
             console_errors := console_errors c @
               [(if isEditMode c then ''Error updating task:'' else ''Error creating task:'', err)]\<rparr>)"

text \<open>
  \<open>deleteTask(id)\<close>; \<open>answer\<close> is what the user answers to the \<open>confirm\<close> dialog when it
  is shown.
\<close>

definition deleteTask :: "string option \<Rightarrow> bool \<Rightarrow> TaskListComponent \<Rightarrow> TaskListComponent" where
  "deleteTask ident answer c =
     (case ident of
        None \<Rightarrow> c
      | Some i \<Rightarrow>
          if i = [] then c
          else
            (let c1 = c\<lparr>confirms := confirms c @ [''Are you sure you want to delete this task?'']\<rparr>
             in if \<not> answer then c1
                else subscribe DeleteSub (TaskService_deleteTask i) (c1\<lparr>loading := True\<rparr>)))"

definition deleteTask_complete :: "response \<Rightarrow> TaskListComponent \<Rightarrow> TaskListComponent" where
  "deleteTask_complete r c =
     finalize
      (case r of
         Success data \<Rightarrow> loadTasks c
       | Failure err \<Rightarrow>
           c\<lparr>error := DELETE_FAILED,
             console_errors := console_errors c @ [(''Error deleting task:'', err)]\<rparr>)"

definition viewTaskDetails :: "Task \<Rightarrow> TaskListComponent \<Rightarrow> TaskListComponent" where
  "viewTaskDetails task c = c\<lparr>selectedTask := Some task, showDetailsModal := True\<rparr>"

definition closeDetailsModal :: "TaskListComponent \<Rightarrow> TaskListComponent" where
  "closeDetailsModal c = c\<lparr>showDetailsModal := False, selectedTask := None\<rparr>"

definition ngOnInit :: "TaskListComponent \<Rightarrow> TaskListComponent" where
  "ngOnInit c = loadTasks c"

text \<open>
  \<open>ngOnDestroy\<close>: the first call makes \<open>destroy$\<close> fire and complete; \<open>takeUntil\<close> ends
  every subscription then in flight and \<open>finalize\<close> runs for each. A completed subject
  never fires again: a later call does nothing, and a request issued after the first call
  is not cancelled.
\<close>

definition ngOnDestroy :: "TaskListComponent \<Rightarrow> TaskListComponent" where
  "ngOnDestroy c =
     (if destroyed c then c
      else if http_pending c = [] then c\<lparr>destroyed := True\<rparr>
      else finalize (c\<lparr>destroyed := True, http_pending := []\<rparr>))"

subsection \<open>Helper views\<close>

definition getPriorityLabel :: "number \<Rightarrow> string" where
  "getPriorityLabel p = or_else (PRIORITY_LABELS p) ''Unknown''"

definition getPriorityClass :: "number \<Rightarrow> string" where
  "getPriorityClass p = or_else (PRIORITY_CLASSES p) ''bg-secondary''"

definition getStatusClass :: "TaskStatus \<Rightarrow> jsvalue" where
  "getStatusClass s = or_else_value (property STATUS_CLASSES s) (Str ''bg-secondary'')"

definition getPriorityIcon :: "number \<Rightarrow> string" where
  "getPriorityIcon p = or_else (PRIORITY_ICONS p) ''bi bi-circle''"

definition getStatusIcon :: "TaskStatus \<Rightarrow> jsvalue" where
  "getStatusIcon s = or_else_value (property STATUS_ICONS s) (Str ''bi bi-question-circle'')"

definition getStatusLabel :: "TaskStatus \<Rightarrow> jsvalue" where
  "getStatusLabel s = or_else_value (property STATUS_LABELS s) (Str s)"

definition getTaskCountByStatus :: "string \<Rightarrow> TaskListComponent \<Rightarrow> nat" where
  "getTaskCountByStatus s c = length (filter (\<lambda>task. status task = s) (filteredTasks c))"

text \<open>
  \<open>getTimeAgo(date)\<close>. \<open>now\<close> is \<open>new Date().getTime()\<close> and \<open>past\<close> is
  \<open>new Date(date).getTime()\<close>, in milliseconds, \<open>NaN\<close> for a date that does not parse;
  \<open>toLocaleDateString\<close> is the runtime's rendering of that date. With \<open>NaN\<close> every
  comparison is false and the last \<open>return\<close> is reached. Neither \<open>new Date\<close> nor
  \<open>toLocaleDateString\<close> throws, so the \<open>catch\<close> branch is never taken.
\<close>

definition getTimeAgo :: "(number \<Rightarrow> string) \<Rightarrow> int \<Rightarrow> number \<Rightarrow> string" where
  "getTimeAgo toLocaleDateString now past =
     (case past of
        NaN \<Rightarrow> toLocaleDateString past
      | Num p \<Rightarrow>
          (let diffInSeconds = (now - p) div 1000 in
           if diffInSeconds < 60 then ''Just now''
           else if diffInSeconds < 3600 then toString (diffInSeconds div 60) @ ''m ago''
           else if diffInSeconds < 86400 then toString (diffInSeconds div 3600) @ ''h ago''
           else if diffInSeconds < 604800 then toString (diffInSeconds div 86400) @ ''d ago''
           else toLocaleDateString past))"

subsection \<open>The controller as a state machine\<close>

text \<open>
  An event is a call of one of the component's methods, the arrival of the response to
  the \<open>i\<close>-th request in flight, or input in the forms bound to the filter fields and
  to the draft.
\<close>

datatype event =
    NgOnInit
  | NgOnDestroy
  | ApplyFilters
  | ClearFilters
  | OpenCreateModal
  | OpenEditModal Task
  | CloseModal
  | SaveTask
  | DeleteTask "string option" bool
  | ViewTaskDetails Task
  | CloseDetailsModal
  | Respond nat response
  | InputFilters string string string string string string string
  | InputDraft Task

definition respond :: "nat \<Rightarrow> response \<Rightarrow> TaskListComponent \<Rightarrow> TaskListComponent" where
  "respond i r c =
     (if i < length (http_pending c)
      then (let c1 = c\<lparr>http_pending := take i (http_pending c) @ drop (Suc i) (http_pending c)\<rparr>
            in case fst (http_pending c ! i) of
                 LoadSub \<Rightarrow> loadTasks_complete r c1
               | SaveSub \<Rightarrow> saveTask_complete r c1
               | DeleteSub \<Rightarrow> deleteTask_complete r c1)
      else c)"

fun step :: "event \<Rightarrow> TaskListComponent \<Rightarrow> TaskListComponent" where
  "step NgOnInit c = ngOnInit c"
| "step NgOnDestroy c = ngOnDestroy c"
| "step ApplyFilters c = applyFilters c"
| "step ClearFilters c = clearFilters c"
| "step OpenCreateModal c = openCreateModal c"
| "step (OpenEditModal task) c = openEditModal task c"
| "step CloseModal c = closeModal c"
| "step SaveTask c = saveTask c"
| "step (DeleteTask ident answer) c = deleteTask ident answer c"
| "step (ViewTaskDetails task) c = viewTaskDetails task c"
| "step CloseDetailsModal c = closeDetailsModal c"
| "step (Respond i r) c = respond i r c"
| "step (InputFilters st pr se df dt sb sd) c =
     c\<lparr>filterStatus := st, filterPriority := pr, searchQuery := se, dueDateFrom := df,
       dueDateTo := dt, sortBy := sb, sortDirection := sd\<rparr>"
| "step (InputDraft task) c = c\<lparr>currentTask := task\<rparr>"

fun run :: "event list \<Rightarrow> TaskListComponent \<Rightarrow> TaskListComponent" where
  "run [] c = c"
| "run (e # es) c = run es (step e c)"

subsection \<open>Drafts of the component's tests\<close>

text \<open>The well-formed draft of the test \<open>should pass validation with valid data\<close>.\<close>

definition valid_draft :: Task where
  "valid_draft =
     \<lparr>task_id = None, title = ''Valid Title'', description = ''Valid Description'',
      status = ''TODO'', priority = Num 3, dueDate = None, createdAt = None,
      updatedAt = None\<rparr>"

text \<open>The three tasks the component's tests load, one of each status.\<close>

definition mockTasks :: "Task list" where
  "mockTasks =
     [\<lparr>task_id = Some ''1'', title = ''Test Task 1'', description = ''Description 1'',
       status = ''TODO'', priority = Num 1, dueDate = Some ''2025-12-31'',
       createdAt = Some ''2025-10-01T10:00:00Z'', updatedAt = None\<rparr>,
      \<lparr>task_id = Some ''2'', title = ''Test Task 2'', description = ''Description 2'',
       status = ''IN_PROGRESS'', priority = Num 2, dueDate = Some ''2025-11-30'',
       createdAt = Some ''2025-10-02T10:00:00Z'', updatedAt = None\<rparr>,
      \<lparr>task_id = Some ''3'', title = ''Test Task 3'', description = ''Description 3'',
       status = ''DONE'', priority = Num 3, dueDate = Some ''2025-10-15'',
       createdAt = Some ''2025-10-03T10:00:00Z'', updatedAt = None\<rparr>]"

section \<open>Properties\<close>

subsection \<open>Decimal rendering of numbers\<close>

lemma digits_small: "n < 10 \<Longrightarrow> digits n = [digit_char n]"
  by (subst digits.simps) simp

lemma digits_large: "\<not> n < 10 \<Longrightarrow> digits n = digits (n div 10) @ [digit_char (n mod 10)]"
  by (subst digits.simps) simp

lemmas toString_eval = toString_def number_toString_def digits_small digits_large digit_char_def

lemma below_ten: "(d::nat) < 10 \<Longrightarrow> d \<in> {0, 1, 2, 3, 4, 5, 6, 7, 8, 9}"
  by auto

lemma digit_val_digit_char: "d < 10 \<Longrightarrow> digit_val (digit_char d) = d"
  using below_ten [of d] by (auto simp: digit_val_def digit_char_def)

lemma parse_digits_snoc: "parse_digits (s @ [c]) = 10 * parse_digits s + digit_val c"
  by (simp add: parse_digits_def)

lemma parse_digits_digits: "parse_digits (digits n) = n"
proof (induction n rule: digits.induct)
  case (1 n)
  show ?case
  proof (cases "n < 10")
    case True
    then show ?thesis
      by (simp add: digits_small parse_digits_def digit_val_digit_char)
  next
    case False
    with 1 have "parse_digits (digits (n div 10)) = n div 10"
      by simp
    with False show ?thesis
      by (simp add: digits_large parse_digits_snoc digit_val_digit_char)
  qed
qed

lemma digits_all_digits: "list_all isDigit (digits n)"
proof (induction n rule: digits.induct)
  case (1 n)
  have d: "isDigit (digit_char k)" if "k < 10" for k
    using below_ten [OF that] by (auto simp: isDigit_def digit_char_def)
  show ?case
  proof (cases "n < 10")
    case True
    then show ?thesis by (simp add: digits_small d)
  next
    case False
    with 1 show ?thesis by (simp add: digits_large d)
  qed
qed

lemma digits_not_minus: "\<exists>c r. digits n = c # r \<and> c \<noteq> CHR ''-''"
proof (cases "digits n")
  case Nil
  then show ?thesis
    by (cases "n < 10") (simp_all add: digits_small digits_large)
next
  case (Cons c r)
  with digits_all_digits [of n] have "isDigit c" by simp
  then have "c \<noteq> CHR ''-''" by (auto simp: isDigit_def)
  with Cons show ?thesis by simp
qed

text \<open>The string \<open>toString\<close> gives is the decimal form: reading it back gives the integer.\<close>

lemma read_decimal_toString: "read_decimal (toString i) = i"
proof (cases "i < 0")
  case True
  then show ?thesis
    by (simp add: toString_def read_decimal_def parse_digits_digits)
next
  case False
  from digits_not_minus [of "nat i"] obtain c r
    where d: "digits (nat i) = c # r" and c: "c \<noteq> CHR ''-''" by blast
  have "int (parse_digits (digits (nat i))) = i"
    using False by (simp add: parse_digits_digits)
  with False d c show ?thesis
    by (simp add: toString_def read_decimal_def)
qed

subsection \<open>Query parameters of \<open>getAllTasks\<close>\<close>

lemma map_of_params_set:
  "map_of (params_set ps k v) k' = (if k' = k then Some v else map_of ps k')"
  by (simp add: params_set_def update_conv')

lemma keys_params_set: "fst ` set (params_set ps k v) = insert k (fst ` set ps)"
  by (simp add: params_set_def AList.dom_update)

lemma distinct_params_set:
  "distinct (map fst ps) \<Longrightarrow> distinct (map fst (params_set ps k v))"
  by (simp add: params_set_def AList.distinct_update)

lemma map_of_set_if_truthy:
  "map_of (set_if_truthy k v ps) k' =
     (if k' = k \<and> set_value v \<noteq> None then set_value v else map_of ps k')"
  by (simp add: set_if_truthy_def set_value_def map_of_params_set split: option.splits)

lemma map_of_set_if_defined:
  "map_of (set_if_defined k v ps) k' =
     (if k' = k \<and> v \<noteq> None then map_option number_toString v else map_of ps k')"
  by (simp add: set_if_defined_def map_of_params_set split: option.splits)

lemma keys_set_if_truthy: "fst ` set (set_if_truthy k v ps) \<subseteq> insert k (fst ` set ps)"
  by (auto simp: set_if_truthy_def keys_params_set split: option.splits)

lemma keys_set_if_defined: "fst ` set (set_if_defined k v ps) \<subseteq> insert k (fst ` set ps)"
  by (auto simp: set_if_defined_def keys_params_set split: option.splits)

lemma distinct_set_if_truthy:
  "distinct (map fst ps) \<Longrightarrow> distinct (map fst (set_if_truthy k v ps))"
  by (simp add: set_if_truthy_def distinct_params_set split: option.splits)

lemma distinct_set_if_defined:
  "distinct (map fst ps) \<Longrightarrow> distinct (map fst (set_if_defined k v ps))"
  by (simp add: set_if_defined_def distinct_params_set split: option.splits)

lemma getAllTasks_params_lookup:
  "map_of (getAllTasks_params (Some f)) ''status'' = set_value (status_param f)"
  "map_of (getAllTasks_params (Some f)) ''priority'' = map_option number_toString (priority_param f)"
  "map_of (getAllTasks_params (Some f)) ''dueDateFrom'' = set_value (dueDateFrom_param f)"
  "map_of (getAllTasks_params (Some f)) ''dueDateTo'' = set_value (dueDateTo_param f)"
  "map_of (getAllTasks_params (Some f)) ''search'' = set_value (search_param f)"
  "map_of (getAllTasks_params (Some f)) ''sortBy'' = set_value (sortBy_param f)"
  "map_of (getAllTasks_params (Some f)) ''sortDirection'' = set_value (sortDirection_param f)"
  by (simp_all add: getAllTasks_params_def map_of_set_if_truthy map_of_set_if_defined)

lemma getAllTasks_params_distinct: "distinct (map fst (getAllTasks_params filters))"
  by (simp add: getAllTasks_params_def distinct_set_if_truthy distinct_set_if_defined
      split: option.splits)

lemma getAllTasks_params_keys:
  "fst ` set (getAllTasks_params filters) \<subseteq>
     {''status'', ''priority'', ''dueDateFrom'', ''dueDateTo'', ''search'', ''sortBy'',
      ''sortDirection''}"
proof (cases filters)
  case None
  then show ?thesis by (simp add: getAllTasks_params_def)
next
  case (Some f)
  let ?p1 = "set_if_truthy ''status'' (status_param f) []"
  let ?p2 = "set_if_defined ''priority'' (priority_param f) ?p1"
  let ?p3 = "set_if_truthy ''dueDateFrom'' (dueDateFrom_param f) ?p2"
  let ?p4 = "set_if_truthy ''dueDateTo'' (dueDateTo_param f) ?p3"
  let ?p5 = "set_if_truthy ''search'' (search_param f) ?p4"
  let ?p6 = "set_if_truthy ''sortBy'' (sortBy_param f) ?p5"
  let ?p7 = "set_if_truthy ''sortDirection'' (sortDirection_param f) ?p6"
  have 1: "fst ` set ?p1 \<subseteq> {''status''}"
    using keys_set_if_truthy [of "''status''" "status_param f" "[]"] by simp
  have 2: "fst ` set ?p2 \<subseteq> {''status'', ''priority''}"
    using keys_set_if_defined [of "''priority''" "priority_param f" ?p1] 1 by blast
  have 3: "fst ` set ?p3 \<subseteq> {''status'', ''priority'', ''dueDateFrom''}"
    using keys_set_if_truthy [of "''dueDateFrom''" "dueDateFrom_param f" ?p2] 2 by blast
  have 4: "fst ` set ?p4 \<subseteq> {''status'', ''priority'', ''dueDateFrom'', ''dueDateTo''}"
    using keys_set_if_truthy [of "''dueDateTo''" "dueDateTo_param f" ?p3] 3 by blast
  have 5: "fst ` set ?p5 \<subseteq> {''status'', ''priority'', ''dueDateFrom'', ''dueDateTo'', ''search''}"
    using keys_set_if_truthy [of "''search''" "search_param f" ?p4] 4 by blast
  have 6: "fst ` set ?p6 \<subseteq>
      {''status'', ''priority'', ''dueDateFrom'', ''dueDateTo'', ''search'', ''sortBy''}"
    using keys_set_if_truthy [of "''sortBy''" "sortBy_param f" ?p5] 5 by blast
  have 7: "fst ` set ?p7 \<subseteq>
      {''status'', ''priority'', ''dueDateFrom'', ''dueDateTo'', ''search'', ''sortBy'',
       ''sortDirection''}"
    using keys_set_if_truthy [of "''sortDirection''" "sortDirection_param f" ?p6] 6 by blast
  from 7 Some show ?thesis by (simp add: getAllTasks_params_def)
qed

text \<open>
  Claim C1, as amended. For every filter-parameter object passed to \<open>getAllTasks\<close>, the
  request carries, under the field's own name, the value of each string field that is set
  to a non-empty string, and no parameter for a string field that is absent or empty.
  The priority parameter is present exactly when the priority is defined, zero and \<open>NaN\<close>
  included; its value is the \<open>toString\<close> form of the number: \<open>NaN\<close> for \<open>NaN\<close> and, for
  a safe integer, its decimal string form, the string that reads back as that integer.
  Each name occurs at most once, no other name occurs, and without a filter object the
  request has no parameter.
\<close>

theorem getAllTasks_query_parameters:
  "params_get (req_params (TaskService_getAllTasks (Some f))) ''status''
     = set_value (status_param f) \<and>
   (params_get (req_params (TaskService_getAllTasks (Some f))) ''priority'' = None)
     = (priority_param f = None) \<and>
   (priority_param f = Some NaN \<longrightarrow>
      params_get (req_params (TaskService_getAllTasks (Some f))) ''priority'' = Some ''NaN'') \<and>
   (\<forall>i. priority_param f = Some (Num i) \<and> - MAX_SAFE_INTEGER \<le> i \<and> i \<le> MAX_SAFE_INTEGER \<longrightarrow>
      params_get (req_params (TaskService_getAllTasks (Some f))) ''priority''
        = Some (toString i) \<and>
      read_decimal (toString i) = i) \<and>
   params_get (req_params (TaskService_getAllTasks (Some f))) ''dueDateFrom''
     = set_value (dueDateFrom_param f) \<and>
   params_get (req_params (TaskService_getAllTasks (Some f))) ''dueDateTo''
     = set_value (dueDateTo_param f) \<and>
   params_get (req_params (TaskService_getAllTasks (Some f))) ''search''
     = set_value (search_param f) \<and>
   params_get (req_params (TaskService_getAllTasks (Some f))) ''sortBy''
     = set_value (sortBy_param f) \<and>
   params_get (req_params (TaskService_getAllTasks (Some f))) ''sortDirection''
     = set_value (sortDirection_param f) \<and>
   distinct (map fst (req_params (TaskService_getAllTasks (Some f)))) \<and>
   fst ` set (req_params (TaskService_getAllTasks (Some f))) \<subseteq>
     {''status'', ''priority'', ''dueDateFrom'', ''dueDateTo'', ''search'', ''sortBy'',
      ''sortDirection''} \<and>
   req_params (TaskService_getAllTasks None) = []"
  using getAllTasks_params_keys [of "Some f"]
  by (simp add: TaskService_getAllTasks_def params_get_def getAllTasks_params_lookup
      getAllTasks_params_distinct number_toString_def read_decimal_toString)
     (simp add: getAllTasks_params_def)

theorem getAllTasks_query_parameters_witness:
  "params_get (req_params (TaskService_getAllTasks (Some
     \<lparr>status_param = Some ''TODO'', priority_param = Some (Num 1), dueDateFrom_param = None,
      dueDateTo_param = Some [], search_param = Some ''test'', sortBy_param = Some ''priority'',
      sortDirection_param = Some ''asc''\<rparr>))) ''priority'' = Some ''1'' \<and>
   params_get (req_params (TaskService_getAllTasks (Some
     \<lparr>status_param = Some ''TODO'', priority_param = Some (Num 1), dueDateFrom_param = None,
      dueDateTo_param = Some [], search_param = Some ''test'', sortBy_param = Some ''priority'',
      sortDirection_param = Some ''asc''\<rparr>))) ''status'' = Some ''TODO'' \<and>
   params_get (req_params (TaskService_getAllTasks (Some
     \<lparr>status_param = Some ''TODO'', priority_param = Some (Num 1), dueDateFrom_param = None,
      dueDateTo_param = Some [], search_param = Some ''test'', sortBy_param = Some ''priority'',
      sortDirection_param = Some ''asc''\<rparr>))) ''dueDateFrom'' = None \<and>
   params_get (req_params (TaskService_getAllTasks (Some
     \<lparr>status_param = Some ''TODO'', priority_param = Some (Num 1), dueDateFrom_param = None,
      dueDateTo_param = Some [], search_param = Some ''test'', sortBy_param = Some ''priority'',
      sortDirection_param = Some ''asc''\<rparr>))) ''dueDateTo'' = None \<and>
   params_get (req_params (TaskService_getAllTasks (Some
     \<lparr>status_param = None, priority_param = Some NaN, dueDateFrom_param = None,
      dueDateTo_param = None, search_param = None, sortBy_param = None,
      sortDirection_param = None\<rparr>))) ''priority'' = Some ''NaN''"
  using getAllTasks_query_parameters [of
     "\<lparr>status_param = Some ''TODO'', priority_param = Some (Num 1), dueDateFrom_param = None,
      dueDateTo_param = Some [], search_param = Some ''test'', sortBy_param = Some ''priority'',
      sortDirection_param = Some ''asc''\<rparr>"]
    getAllTasks_query_parameters [of
     "\<lparr>status_param = None, priority_param = Some NaN, dueDateFrom_param = None,
      dueDateTo_param = None, search_param = None, sortBy_param = None,
      sortDirection_param = None\<rparr>"]
  by (simp add: set_value_def toString_eval MAX_SAFE_INTEGER_def)

text \<open>
  Claim C1 as stated fails at the priority \<open>0\<close>: the value is falsy, yet the request
  carries \<open>priority=0\<close>, because the priority is tested with \<open>!== undefined\<close>.
\<close>

theorem getAllTasks_priority_zero_counterexample:
  "falsy_number (Num 0) \<and>
   params_get (req_params (TaskService_getAllTasks (Some
     \<lparr>status_param = None, priority_param = Some (Num 0), dueDateFrom_param = None,
      dueDateTo_param = None, search_param = None, sortBy_param = None,
      sortDirection_param = None\<rparr>))) ''priority'' = Some ''0''"
  by (simp add: falsy_number_def TaskService_getAllTasks_def params_get_def
      getAllTasks_params_def set_if_truthy_def set_if_defined_def params_set_def toString_eval)

subsection \<open>Lookup helpers\<close>

lemma or_else_None: "or_else None b = b"
  by (simp add: or_else_def)

lemma or_else_Some: "v \<noteq> [] \<Longrightarrow> or_else (Some v) b = v"
  by (simp add: or_else_def)

lemma property_own: "table key = Some v \<Longrightarrow> property table key = Some (Str v)"
  by (simp add: property_def)

lemma property_undefined:
  "table key = None \<Longrightarrow> key \<notin> set Object_prototype_names \<Longrightarrow> property table key = None"
  by (simp add: property_def)

lemma property_inherited:
  "table key = None \<Longrightarrow> key \<in> set Object_prototype_names \<Longrightarrow>
     property table key = Some (Inherited key)"
  by (simp add: property_def)

lemma or_else_value_None: "or_else_value None b = b"
  by (simp add: or_else_value_def)

lemma or_else_value_Str: "v \<noteq> [] \<Longrightarrow> or_else_value (Some (Str v)) b = Str v"
  by (simp add: or_else_value_def)

lemma or_else_value_Inherited: "or_else_value (Some (Inherited k)) b = Inherited k"
  by (simp add: or_else_value_def)

lemma PRIORITY_LABELS_nonempty: "PRIORITY_LABELS p = Some v \<Longrightarrow> v \<noteq> []"
  by (auto simp: PRIORITY_LABELS_def split: if_splits)

lemma PRIORITY_ICONS_nonempty: "PRIORITY_ICONS p = Some v \<Longrightarrow> v \<noteq> []"
  by (auto simp: PRIORITY_ICONS_def split: if_splits)

lemma PRIORITY_CLASSES_nonempty: "PRIORITY_CLASSES p = Some v \<Longrightarrow> v \<noteq> []"
  by (auto simp: PRIORITY_CLASSES_def split: if_splits)

lemma STATUS_LABELS_nonempty: "STATUS_LABELS s = Some v \<Longrightarrow> v \<noteq> []"
  by (auto simp: STATUS_LABELS_def split: if_splits)

lemma STATUS_ICONS_nonempty: "STATUS_ICONS s = Some v \<Longrightarrow> v \<noteq> []"
  by (auto simp: STATUS_ICONS_def split: if_splits)

lemma STATUS_CLASSES_nonempty: "STATUS_CLASSES s = Some v \<Longrightarrow> v \<noteq> []"
  by (auto simp: STATUS_CLASSES_def split: if_splits)

text \<open>
  No key of a status table is the name of an inherited member, so \<open>property\<close> on a key of
  the table is the table entry.
\<close>

lemma status_keys_not_inherited:
  "STATUS_LABELS s = Some v \<Longrightarrow> s \<notin> set Object_prototype_names"
  "STATUS_ICONS s = Some v \<Longrightarrow> s \<notin> set Object_prototype_names"
  "STATUS_CLASSES s = Some v \<Longrightarrow> s \<notin> set Object_prototype_names"
  by (auto simp: STATUS_LABELS_def STATUS_ICONS_def STATUS_CLASSES_def
      Object_prototype_names_def split: if_splits)

text \<open>
  For the name of an inherited member, which is in no status table, each status helper
  returns that member: a function or an object, not a string.
\<close>

lemma status_helpers_inherited:
  assumes "s \<in> set Object_prototype_names"
  shows "getStatusLabel s = Inherited s \<and> getStatusIcon s = Inherited s \<and>
    getStatusClass s = Inherited s"
proof -
  have "STATUS_LABELS s = None" "STATUS_ICONS s = None" "STATUS_CLASSES s = None"
    using assms status_keys_not_inherited [of s] by (cases "STATUS_LABELS s", auto)
      (cases "STATUS_ICONS s", auto, cases "STATUS_CLASSES s", auto)
  with assms show ?thesis
    by (simp add: getStatusLabel_def getStatusIcon_def getStatusClass_def property_inherited
        or_else_value_Inherited)
qed

text \<open>
  Claim C9, as amended. For a priority that is not in the lookup tables,
  \<open>getPriorityLabel\<close>, \<open>getPriorityIcon\<close> and \<open>getPriorityClass\<close> return a fixed fallback
  (\<open>Unknown\<close>, \<open>bi bi-circle\<close>, \<open>bg-secondary\<close>). For a status code that is not in the
  lookup tables and is not the name of a member inherited from \<open>Object.prototype\<close>,
  \<open>getStatusIcon\<close> and \<open>getStatusClass\<close> return a fixed fallback
  (\<open>bi bi-question-circle\<close>, \<open>bg-secondary\<close>), while \<open>getStatusLabel\<close> returns the
  unrecognised status code itself. For a code in the table each of the six helpers
  returns the table entry.
\<close>

theorem lookup_helpers_fallback:
  "(PRIORITY_LABELS p = None \<longrightarrow> getPriorityLabel p = ''Unknown'') \<and>
   (PRIORITY_ICONS p = None \<longrightarrow> getPriorityIcon p = ''bi bi-circle'') \<and>
   (PRIORITY_CLASSES p = None \<longrightarrow> getPriorityClass p = ''bg-secondary'') \<and>
   (STATUS_ICONS s = None \<and> s \<notin> set Object_prototype_names \<longrightarrow>
      getStatusIcon s = Str ''bi bi-question-circle'') \<and>
   (STATUS_CLASSES s = None \<and> s \<notin> set Object_prototype_names \<longrightarrow>
      getStatusClass s = Str ''bg-secondary'') \<and>
   (STATUS_LABELS s = None \<and> s \<notin> set Object_prototype_names \<longrightarrow>
      getStatusLabel s = Str s) \<and>
   (\<forall>v. PRIORITY_LABELS p = Some v \<longrightarrow> getPriorityLabel p = v) \<and>
   (\<forall>v. PRIORITY_ICONS p = Some v \<longrightarrow> getPriorityIcon p = v) \<and>
   (\<forall>v. PRIORITY_CLASSES p = Some v \<longrightarrow> getPriorityClass p = v) \<and>
   (\<forall>v. STATUS_LABELS s = Some v \<longrightarrow> getStatusLabel s = Str v) \<and>
   (\<forall>v. STATUS_ICONS s = Some v \<longrightarrow> getStatusIcon s = Str v) \<and>
   (\<forall>v. STATUS_CLASSES s = Some v \<longrightarrow> getStatusClass s = Str v)"
  by (simp add: getPriorityLabel_def getPriorityIcon_def getPriorityClass_def
      getStatusLabel_def getStatusIcon_def getStatusClass_def or_else_None or_else_Some
      property_own property_undefined or_else_value_None or_else_value_Str
      PRIORITY_LABELS_nonempty PRIORITY_ICONS_nonempty PRIORITY_CLASSES_nonempty
      STATUS_LABELS_nonempty STATUS_ICONS_nonempty STATUS_CLASSES_nonempty)

theorem lookup_helpers_fallback_witness:
  "getPriorityLabel (Num 7) = ''Unknown'' \<and> getPriorityIcon (Num 7) = ''bi bi-circle'' \<and>
   getPriorityClass NaN = ''bg-secondary'' \<and>
   getStatusIcon ''ARCHIVED'' = Str ''bi bi-question-circle'' \<and>
   getStatusClass ''ARCHIVED'' = Str ''bg-secondary'' \<and>
   getStatusLabel ''ARCHIVED'' = Str ''ARCHIVED'' \<and>
   getPriorityLabel (Num 1) = ''Critical'' \<and> getPriorityIcon (Num 5) = ''bi bi-circle-fill'' \<and>
   getPriorityClass (Num 3) = ''bg-priority-medium'' \<and> getStatusLabel ''TODO'' = Str ''To Do'' \<and>
   getStatusIcon ''DONE'' = Str ''bi bi-check-circle-fill'' \<and>
   getStatusClass ''IN_PROGRESS'' = Str ''bg-status-in-progress''"
  using lookup_helpers_fallback [of "Num 7" "''ARCHIVED''"]
    lookup_helpers_fallback [of NaN "''ARCHIVED''"]
    lookup_helpers_fallback [of "Num 1" "''TODO''"]
    lookup_helpers_fallback [of "Num 5" "''DONE''"]
    lookup_helpers_fallback [of "Num 3" "''IN_PROGRESS''"]
  by (simp add: PRIORITY_LABELS_def PRIORITY_ICONS_def PRIORITY_CLASSES_def STATUS_LABELS_def
      STATUS_ICONS_def STATUS_CLASSES_def Object_prototype_names_def)

text \<open>
  Claim C9 as stated fails for \<open>getStatusLabel\<close>: the status \<open>ARCHIVED\<close> is in no table and
  is no inherited name, and the helper returns the input code, since its fallback is
  \<open>|| status\<close>.
\<close>

theorem getStatusLabel_unknown_counterexample:
  "STATUS_LABELS ''ARCHIVED'' = None \<and> ''ARCHIVED'' \<notin> set Object_prototype_names \<and>
   getStatusLabel ''ARCHIVED'' = Str ''ARCHIVED''"
  by (simp add: STATUS_LABELS_def getStatusLabel_def or_else_value_def property_def
      Object_prototype_names_def)

subsection \<open>Relative time\<close>

text \<open>
  Claim C8. With \<open>t\<close> the age in whole seconds, \<open>getTimeAgo\<close> returns \<open>Just now\<close> when
  \<open>t < 60\<close>, the decimal form of \<open>t div 60\<close> followed by \<open>m ago\<close> when \<open>60 \<le> t < 3600\<close>,
  of \<open>t div 3600\<close> followed by \<open>h ago\<close> when \<open>3600 \<le> t < 86400\<close>, of \<open>t div 86400\<close>
  followed by \<open>d ago\<close> when \<open>86400 \<le> t < 604800\<close>, and the absolute date string from
  \<open>t = 604800\<close> on. A timestamp five minutes in the past renders \<open>5m ago\<close> and a timestamp
  at the current instant renders \<open>Just now\<close>.
\<close>

theorem getTimeAgo_thresholds:
  "(let t = (now - p) div 1000 in
     (t < 60 \<longrightarrow> getTimeAgo f now (Num p) = ''Just now'') \<and>
     (60 \<le> t \<and> t < 3600 \<longrightarrow> getTimeAgo f now (Num p) = toString (t div 60) @ ''m ago'') \<and>
     (3600 \<le> t \<and> t < 86400 \<longrightarrow> getTimeAgo f now (Num p) = toString (t div 3600) @ ''h ago'') \<and>
     (86400 \<le> t \<and> t < 604800 \<longrightarrow>
        getTimeAgo f now (Num p) = toString (t div 86400) @ ''d ago'') \<and>
     (604800 \<le> t \<longrightarrow> getTimeAgo f now (Num p) = f (Num p))) \<and>
   getTimeAgo f now (Num (now - 5 * 60 * 1000)) = ''5m ago'' \<and>
   getTimeAgo f now (Num now) = ''Just now''"
  by (simp add: getTimeAgo_def Let_def toString_eval)

theorem getTimeAgo_thresholds_witness:
  "getTimeAgo (\<lambda>d. ''1/1/1970'') 59999 (Num 0) = ''Just now'' \<and>
   getTimeAgo (\<lambda>d. ''1/1/1970'') 60000 (Num 0) = ''1m ago'' \<and>
   getTimeAgo (\<lambda>d. ''1/1/1970'') 3599999 (Num 0) = ''59m ago'' \<and>
   getTimeAgo (\<lambda>d. ''1/1/1970'') 3600000 (Num 0) = ''1h ago'' \<and>
   getTimeAgo (\<lambda>d. ''1/1/1970'') 86400000 (Num 0) = ''1d ago'' \<and>
   getTimeAgo (\<lambda>d. ''1/1/1970'') 604799999 (Num 0) = ''6d ago'' \<and>
   getTimeAgo (\<lambda>d. ''1/1/1970'') 604800000 (Num 0) = ''1/1/1970''"
  using getTimeAgo_thresholds [of 59999 0 "\<lambda>d. ''1/1/1970''"]
    getTimeAgo_thresholds [of 60000 0 "\<lambda>d. ''1/1/1970''"]
    getTimeAgo_thresholds [of 3599999 0 "\<lambda>d. ''1/1/1970''"]
    getTimeAgo_thresholds [of 3600000 0 "\<lambda>d. ''1/1/1970''"]
    getTimeAgo_thresholds [of 86400000 0 "\<lambda>d. ''1/1/1970''"]
    getTimeAgo_thresholds [of 604799999 0 "\<lambda>d. ''1/1/1970''"]
    getTimeAgo_thresholds [of 604800000 0 "\<lambda>d. ''1/1/1970''"]
  by (simp add: toString_eval)

subsection \<open>Validation of the draft\<close>

lemma dropWhile_all_iff: "(\<forall>x\<in>set (dropWhile P xs). P x) = (\<forall>x\<in>set xs. P x)"
proof
  assume a: "\<forall>x\<in>set (dropWhile P xs). P x"
  have "dropWhile P xs = []"
  proof (rule ccontr)
    assume n: "dropWhile P xs \<noteq> []"
    then have "\<not> P (hd (dropWhile P xs))" by (rule hd_dropWhile)
    moreover from n have "hd (dropWhile P xs) \<in> set (dropWhile P xs)" by simp
    ultimately show False using a by blast
  qed
  then show "\<forall>x\<in>set xs. P x" by (simp add: dropWhile_eq_Nil_conv)
next
  assume "\<forall>x\<in>set xs. P x"
  then show "\<forall>x\<in>set (dropWhile P xs). P x"
    by (auto dest: set_dropWhileD)
qed

lemma trim_eq_Nil: "(trim s = []) = list_all isWhiteSpace s"
proof -
  have "(trim s = []) = (\<forall>x\<in>set (rev (dropWhile isWhiteSpace s)). isWhiteSpace x)"
    by (simp add: trim_def dropWhile_eq_Nil_conv)
  also have "\<dots> = (\<forall>x\<in>set s. isWhiteSpace x)"
    by (simp add: dropWhile_all_iff)
  finally show ?thesis by (simp add: list_all_iff)
qed

lemma trim_Nil: "trim [] = []"
  by (simp add: trim_def)

lemma trim_nonempty_length: "trim s \<noteq> [] \<Longrightarrow> 1 \<le> length s"
  by (cases s) (simp_all add: trim_Nil)

lemma priority_check:
  "(falsy_number n \<or> number_less n PRIORITY_MIN \<or> number_less PRIORITY_MAX n)
     = (\<not> (\<exists>i. n = Num i \<and> 1 \<le> i \<and> i \<le> 5))"
  by (cases n) (auto simp: falsy_number_def number_less_def PRIORITY_MIN_def PRIORITY_MAX_def)

lemma validateTask_result:
  "fst (validateTask c) =
     (trim (title (currentTask c)) \<noteq> [] \<and> length (title (currentTask c)) \<le> 200 \<and>
      trim (description (currentTask c)) \<noteq> [] \<and> status (currentTask c) \<noteq> [] \<and>
      (\<exists>i. priority (currentTask c) = Num i \<and> 1 \<le> i \<and> i \<le> 5))"
  unfolding validateTask_def Let_def priority_check TITLE_MAX_LENGTH_def
  by auto

lemma validateTask_state:
  "snd (validateTask c) =
     c\<lparr>alerts := alerts c @
       (if trim (title (currentTask c)) = [] then [''Title is required'']
        else if 200 < length (title (currentTask c))
          then [''Title must be less than 200 characters'']
        else if trim (description (currentTask c)) = [] then [''Description is required'']
        else if status (currentTask c) = [] then [''Status is required'']
        else if \<not> (\<exists>i. priority (currentTask c) = Num i \<and> 1 \<le> i \<and> i \<le> 5)
          then [''Priority must be between 1 and 5'']
        else [])\<rparr>"
  unfolding validateTask_def Let_def priority_check TITLE_MAX_LENGTH_def alert_def
    TITLE_REQUIRED_def TITLE_TOO_LONG_def DESCRIPTION_REQUIRED_def STATUS_REQUIRED_def
    PRIORITY_INVALID_def
  by simp

lemma validateTask_accepted_state: "fst (validateTask c) \<Longrightarrow> snd (validateTask c) = c"
  unfolding validateTask_def Let_def by (simp split: if_splits)

lemma trim_Valid_Title: "trim ''Valid Title'' \<noteq> []"
  by (simp add: trim_eq_Nil isWhiteSpace_def)

lemma trim_Valid_Description: "trim ''Valid Description'' \<noteq> []"
  by (simp add: trim_eq_Nil isWhiteSpace_def)

text \<open>
  Claim C2. \<open>validateTask\<close> reads the current draft and changes nothing but the list of
  alerts shown. It checks in this order, stopping at the first failure and alerting its
  message: the title is not empty after trimming; the title has at most 200 characters;
  the description is not empty after trimming; the status is truthy; the priority is set
  and within 1 to 5. In particular it returns false on an empty title, on a title of
  length 201, on an empty description and on priority 10, and it returns true, with no
  alert, for the draft with title \<open>Valid Title\<close>, description \<open>Valid Description\<close>,
  status \<open>TODO\<close> and priority 3.
\<close>

theorem validateTask_checks:
  "fst (validateTask c) =
     (trim (title (currentTask c)) \<noteq> [] \<and> length (title (currentTask c)) \<le> 200 \<and>
      trim (description (currentTask c)) \<noteq> [] \<and> status (currentTask c) \<noteq> [] \<and>
      (\<exists>i. priority (currentTask c) = Num i \<and> 1 \<le> i \<and> i \<le> 5)) \<and>
   snd (validateTask c) =
     c\<lparr>alerts := alerts c @
       (if trim (title (currentTask c)) = [] then [''Title is required'']
        else if 200 < length (title (currentTask c))
          then [''Title must be less than 200 characters'']
        else if trim (description (currentTask c)) = [] then [''Description is required'']
        else if status (currentTask c) = [] then [''Status is required'']
        else if \<not> (\<exists>i. priority (currentTask c) = Num i \<and> 1 \<le> i \<and> i \<le> 5)
          then [''Priority must be between 1 and 5'']
        else [])\<rparr> \<and>
   (title (currentTask c) = [] \<longrightarrow> \<not> fst (validateTask c)) \<and>
   (length (title (currentTask c)) = 201 \<longrightarrow> \<not> fst (validateTask c)) \<and>
   (description (currentTask c) = [] \<longrightarrow> \<not> fst (validateTask c)) \<and>
   (priority (currentTask c) = Num 10 \<longrightarrow> \<not> fst (validateTask c)) \<and>
   (title (currentTask c) = ''Valid Title'' \<and>
    description (currentTask c) = ''Valid Description'' \<and>
    status (currentTask c) = ''TODO'' \<and> priority (currentTask c) = Num 3
      \<longrightarrow> validateTask c = (True, c))"
proof -
  have valid: "validateTask c = (True, c)"
    if "title (currentTask c) = ''Valid Title''"
      and "description (currentTask c) = ''Valid Description''"
      and "status (currentTask c) = ''TODO''" and "priority (currentTask c) = Num 3"
  proof -
    from that have ok: "fst (validateTask c)"
      by (simp add: validateTask_result trim_Valid_Title trim_Valid_Description)
    with validateTask_accepted_state [OF ok] show ?thesis
      by (simp add: prod_eq_iff)
  qed
  show ?thesis
    using validateTask_state [of c] valid
    by (simp add: validateTask_result trim_Nil)
qed

theorem validateTask_checks_witness:
  "validateTask (init\<lparr>currentTask := valid_draft\<rparr>) = (True, init\<lparr>currentTask := valid_draft\<rparr>) \<and>
   \<not> fst (validateTask (init\<lparr>currentTask := valid_draft\<lparr>title := []\<rparr>\<rparr>)) \<and>
   \<not> fst (validateTask (init\<lparr>currentTask := valid_draft\<lparr>title := replicate 201 (CHR ''a'')\<rparr>\<rparr>)) \<and>
   \<not> fst (validateTask (init\<lparr>currentTask := valid_draft\<lparr>description := []\<rparr>\<rparr>)) \<and>
   \<not> fst (validateTask (init\<lparr>currentTask := valid_draft\<lparr>priority := Num 10\<rparr>\<rparr>))"
  using validateTask_checks [of "init\<lparr>currentTask := valid_draft\<rparr>"]
    validateTask_checks [of "init\<lparr>currentTask := valid_draft\<lparr>title := []\<rparr>\<rparr>"]
    validateTask_checks [of "init\<lparr>currentTask := valid_draft\<lparr>title := replicate 201 (CHR ''a'')\<rparr>\<rparr>"]
    validateTask_checks [of "init\<lparr>currentTask := valid_draft\<lparr>description := []\<rparr>\<rparr>"]
    validateTask_checks [of "init\<lparr>currentTask := valid_draft\<lparr>priority := Num 10\<rparr>\<rparr>"]
  by (simp add: valid_draft_def trim_Valid_Title trim_Valid_Description trim_Nil)

text \<open>
  What an accepted draft is known to satisfy: the checks of \<open>validateTask\<close>, and hence a
  title of 1 to 200 characters.
\<close>

lemma validateTask_accepted_invariant:
  "fst (validateTask c) \<Longrightarrow>
     trim (title (currentTask c)) \<noteq> [] \<and> 1 \<le> length (title (currentTask c)) \<and>
     length (title (currentTask c)) \<le> 200 \<and> trim (description (currentTask c)) \<noteq> [] \<and>
     status (currentTask c) \<noteq> [] \<and>
     (\<exists>i. priority (currentTask c) = Num i \<and> 1 \<le> i \<and> i \<le> 5)"
  using trim_nonempty_length [of "title (currentTask c)"]
  by (simp add: validateTask_result)

text \<open>
  Claim C3 at a failing input. The draft with a description of 1001 characters is
  accepted by \<open>validateTask\<close>, although \<open>DESCRIPTION_MAX_LENGTH\<close> is 1000: the constant is
  declared among the validation limits and \<open>validateTask\<close> never reads it.
\<close>

theorem validateTask_accepts_long_description:
  "fst (validateTask (init\<lparr>currentTask := valid_draft\<lparr>description := replicate 1001 (CHR ''a'')\<rparr>\<rparr>)) \<and>
   length (description (currentTask
     (init\<lparr>currentTask := valid_draft\<lparr>description := replicate 1001 (CHR ''a'')\<rparr>\<rparr>))) = 1001 \<and>
   DESCRIPTION_MAX_LENGTH = 1000"
  by (simp add: validateTask_result valid_draft_def trim_Valid_Title trim_eq_Nil list_all_iff
      isWhiteSpace_def DESCRIPTION_MAX_LENGTH_def)

subsection \<open>Saving the draft\<close>

lemma init_fields:
  "tasks init = []" "filteredTasks init = []" "isEditMode init = False"
  "currentTask init = getEmptyTask" "loading init = False" "http_pending init = []"
  "alerts init = []" "error init = []" "sortBy init = ''priority''" "sortDirection init = ''asc''"
  "filterStatus init = []" "filterPriority init = []" "searchQuery init = []"
  "dueDateFrom init = []" "dueDateTo init = []"
  by (simp_all add: init_def SORT_BY_def SORT_DIRECTION_def)

lemma save_operation_loading: "save_operation (c\<lparr>loading := True\<rparr>) = save_operation c"
  by (simp add: save_operation_def split: option.splits)

lemma saveTask_accepted:
  "fst (validateTask c) \<Longrightarrow>
     saveTask c = c\<lparr>loading := True, http_pending := http_pending c @ [(SaveSub, save_operation c)]\<rparr>"
proof -
  assume ok: "fst (validateTask c)"
  then have "validateTask c = (True, c)"
    using validateTask_accepted_state [OF ok] by (simp add: prod_eq_iff)
  then show ?thesis
    by (simp add: saveTask_def subscribe_def Let_def save_operation_loading)
qed

lemma saveTask_rejected: "\<not> fst (validateTask c) \<Longrightarrow> saveTask c = snd (validateTask c)"
  by (cases "validateTask c") (simp add: saveTask_def)

lemma validateTask_rejected_alert:
  assumes no: "\<not> fst (validateTask c)"
  shows "\<exists>msg. snd (validateTask c) = c\<lparr>alerts := alerts c @ [msg]\<rparr>"
proof -
  let ?X = "if trim (title (currentTask c)) = [] then [''Title is required'']
        else if 200 < length (title (currentTask c))
          then [''Title must be less than 200 characters'']
        else if trim (description (currentTask c)) = [] then [''Description is required'']
        else if status (currentTask c) = [] then [''Status is required'']
        else if \<not> (\<exists>i. priority (currentTask c) = Num i \<and> 1 \<le> i \<and> i \<le> 5)
          then [''Priority must be between 1 and 5'']
        else []"
  from no have "\<exists>msg. ?X = [msg]"
    unfolding validateTask_result by (simp split: if_splits) auto
  then obtain msg where "?X = [msg]" ..
  with validateTask_state [of c] have "snd (validateTask c) = c\<lparr>alerts := alerts c @ [msg]\<rparr>"
    by simp
  then show ?thesis ..
qed


lemma save_operation_update:
  "isEditMode c \<Longrightarrow> task_id (currentTask c) = Some i \<Longrightarrow> i \<noteq> [] \<Longrightarrow>
     save_operation c = TaskService_updateTask i (currentTask c)"
  by (simp add: save_operation_def)

lemma save_operation_create:
  "\<not> isEditMode c \<or> task_id (currentTask c) = None \<or> task_id (currentTask c) = Some [] \<Longrightarrow>
     save_operation c = TaskService_createTask (currentTask c)"
  by (auto simp: save_operation_def)

lemma save_operation_method:
  "(req_method (save_operation c) = PUT) =
     (isEditMode c \<and> set_value (task_id (currentTask c)) \<noteq> None)"
  by (simp add: save_operation_def set_value_def TaskService_updateTask_def
      TaskService_createTask_def split: option.splits)

lemma saveTask_rejected_state:
  assumes no: "\<not> fst (validateTask c)"
  shows "http_pending (saveTask c) = http_pending c \<and>
      (\<exists>msg. saveTask c = c\<lparr>alerts := alerts c @ [msg]\<rparr>)"
proof -
  from validateTask_rejected_alert [OF no] obtain msg
    where m: "snd (validateTask c) = c\<lparr>alerts := alerts c @ [msg]\<rparr>" by blast
  have s: "saveTask c = snd (validateTask c)" by (rule saveTask_rejected [OF no])
  have p: "http_pending (saveTask c) = http_pending c" by (simp add: s m)
  from s m have "\<exists>msg. saveTask c = c\<lparr>alerts := alerts c @ [msg]\<rparr>" by auto
  with p show ?thesis by simp
qed

lemma validateTask_valid_draft:
  "title (currentTask c) = ''Valid Title'' \<Longrightarrow>
   description (currentTask c) = ''Valid Description'' \<Longrightarrow>
   status (currentTask c) = ''TODO'' \<Longrightarrow> priority (currentTask c) = Num 3 \<Longrightarrow>
   fst (validateTask c)"
  by (simp add: validateTask_result trim_Valid_Title trim_Valid_Description)

text \<open>
  Claim C4, as amended. If \<open>validateTask\<close> returns false, \<open>saveTask\<close> issues no request and
  changes nothing but the list of alerts, which gains the validation message. Otherwise
  it sets the loading flag and issues exactly one request: \<open>updateTask\<close> if and only if
  the edit-mode flag is true and the draft has a non-empty id, and \<open>createTask\<close> in every
  other case, also in edit mode for a draft without an id.
\<close>

theorem saveTask_dispatch:
  "(\<not> fst (validateTask c) \<longrightarrow>
      http_pending (saveTask c) = http_pending c \<and>
      (\<exists>msg. saveTask c = c\<lparr>alerts := alerts c @ [msg]\<rparr>)) \<and>
   (fst (validateTask c) \<longrightarrow>
      saveTask c =
        c\<lparr>loading := True, http_pending := http_pending c @ [(SaveSub, save_operation c)]\<rparr>) \<and>
   (req_method (save_operation c) = PUT) =
      (isEditMode c \<and> set_value (task_id (currentTask c)) \<noteq> None) \<and>
   (\<forall>i. isEditMode c \<and> task_id (currentTask c) = Some i \<and> i \<noteq> [] \<longrightarrow>
      save_operation c = TaskService_updateTask i (currentTask c)) \<and>
   (\<not> isEditMode c \<or> task_id (currentTask c) = None \<or> task_id (currentTask c) = Some [] \<longrightarrow>
      save_operation c = TaskService_createTask (currentTask c))"
proof (intro conjI impI allI)
  assume no: "\<not> fst (validateTask c)"
  from saveTask_rejected_state [OF no] show "http_pending (saveTask c) = http_pending c"
    by (rule conjunct1)
  from saveTask_rejected_state [OF no]
  show "\<exists>msg. saveTask c = c\<lparr>alerts := alerts c @ [msg]\<rparr>"
    by (rule conjunct2)
next
  assume "fst (validateTask c)"
  then show "saveTask c =
      c\<lparr>loading := True, http_pending := http_pending c @ [(SaveSub, save_operation c)]\<rparr>"
    by (rule saveTask_accepted)
next
  show "(req_method (save_operation c) = PUT) =
      (isEditMode c \<and> set_value (task_id (currentTask c)) \<noteq> None)"
    by (rule save_operation_method)
next
  fix i
  assume "isEditMode c \<and> task_id (currentTask c) = Some i \<and> i \<noteq> []"
  then show "save_operation c = TaskService_updateTask i (currentTask c)"
    by (simp add: save_operation_update)
next
  assume "\<not> isEditMode c \<or> task_id (currentTask c) = None \<or> task_id (currentTask c) = Some []"
  then show "save_operation c = TaskService_createTask (currentTask c)"
    by (rule save_operation_create)
qed

theorem saveTask_dispatch_witness:
  "http_pending (saveTask (init\<lparr>currentTask := valid_draft\<rparr>)) =
     [(SaveSub, TaskService_createTask valid_draft)] \<and>
   http_pending
     (saveTask (init\<lparr>isEditMode := True, currentTask := valid_draft\<lparr>task_id := Some ''1''\<rparr>\<rparr>)) =
     [(SaveSub, TaskService_updateTask ''1'' (valid_draft\<lparr>task_id := Some ''1''\<rparr>))] \<and>
   http_pending (saveTask init) = []"
proof -
  have 1: "fst (validateTask (init\<lparr>currentTask := valid_draft\<rparr>))"
    by (rule validateTask_valid_draft) (simp_all add: valid_draft_def)
  have 2: "fst (validateTask
      (init\<lparr>isEditMode := True, currentTask := valid_draft\<lparr>task_id := Some ''1''\<rparr>\<rparr>))"
    by (rule validateTask_valid_draft) (simp_all add: valid_draft_def)
  have 3: "\<not> fst (validateTask init)"
    by (simp add: validateTask_result init_fields getEmptyTask_def trim_Nil)
  show ?thesis
    using 1 2 3 saveTask_dispatch [of "init\<lparr>currentTask := valid_draft\<rparr>"]
      saveTask_dispatch [of "init\<lparr>isEditMode := True, currentTask := valid_draft\<lparr>task_id := Some ''1''\<rparr>\<rparr>"]
      saveTask_dispatch [of init]
    by (simp add: init_fields valid_draft_def)
qed

text \<open>
  Claim C4 as stated fails when the edit modal is opened on a task without an id: the
  edit-mode flag is true, the draft is valid, and \<open>saveTask\<close> issues \<open>createTask\<close>,
  because the request is chosen by \<open>isEditMode && currentTask.id\<close>.
\<close>

theorem saveTask_edit_mode_without_id_counterexample:
  "isEditMode (openEditModal valid_draft init) \<and>
   task_id (currentTask (openEditModal valid_draft init)) = None \<and>
   fst (validateTask (openEditModal valid_draft init)) \<and>
   http_pending (saveTask (openEditModal valid_draft init)) =
     [(SaveSub, TaskService_createTask valid_draft)]"
proof -
  have ok: "fst (validateTask (openEditModal valid_draft init))"
    by (rule validateTask_valid_draft) (simp_all add: openEditModal_def valid_draft_def)
  have op: "save_operation (openEditModal valid_draft init) = TaskService_createTask valid_draft"
    by (simp add: save_operation_def openEditModal_def valid_draft_def)
  show ?thesis
    using ok by (simp add: saveTask_accepted op) (simp add: openEditModal_def init_fields valid_draft_def)
qed

subsection \<open>Loading and clearing the filters\<close>

lemma buildFilterParams_loading_error:
  "buildFilterParams (c\<lparr>loading := l, error := e\<rparr>) = buildFilterParams c"
  by (simp add: buildFilterParams_def)

lemma loadTasks_state:
  "loadTasks c =
     c\<lparr>loading := True, error := [],
       http_pending := http_pending c @
         [(LoadSub, TaskService_getAllTasks (Some (buildFilterParams c)))]\<rparr>"
  by (simp add: loadTasks_def Let_def subscribe_def buildFilterParams_loading_error)

lemma default_filter_request:
  "TaskService_getAllTasks (Some (buildFilterParams
      (c\<lparr>filterStatus := [], filterPriority := [], searchQuery := [], dueDateFrom := [],
         dueDateTo := [], sortBy := SORT_BY, sortDirection := SORT_DIRECTION\<rparr>))) =
     \<lparr>req_method = GET, req_url = apiUrl,
      req_params = [(''sortBy'', ''priority''), (''sortDirection'', ''asc'')],
      req_body = None\<rparr>"
  by (simp add: TaskService_getAllTasks_def buildFilterParams_def truthy_param_def
      getAllTasks_params_def set_if_truthy_def set_if_defined_def params_set_def
      SORT_BY_def SORT_DIRECTION_def)

text \<open>
  Claim C5. From every state, \<open>clearFilters\<close> leaves the filter state at the documented
  defaults, status, priority, search, due-date-from and due-date-to empty, sort-by
  \<open>priority\<close> and sort-direction \<open>asc\<close>, and issues exactly one request: the reload of the
  task list, built from those defaults.
\<close>

theorem clearFilters_defaults:
  "filterStatus (clearFilters c) = [] \<and> filterPriority (clearFilters c) = [] \<and>
   searchQuery (clearFilters c) = [] \<and> dueDateFrom (clearFilters c) = [] \<and>
   dueDateTo (clearFilters c) = [] \<and> sortBy (clearFilters c) = ''priority'' \<and>
   sortDirection (clearFilters c) = ''asc'' \<and>
   http_pending (clearFilters c) =
     http_pending c @
       [(LoadSub,
         \<lparr>req_method = GET, req_url = apiUrl,
          req_params = [(''sortBy'', ''priority''), (''sortDirection'', ''asc'')],
          req_body = None\<rparr>)]"
  unfolding clearFilters_def loadTasks_state default_filter_request
  by (simp add: SORT_BY_def SORT_DIRECTION_def)

theorem clearFilters_defaults_witness:
  "filterStatus (clearFilters (step (InputFilters ''TODO'' ''1'' ''test'' ''2025-01-01''
      ''2025-12-31'' ''title'' ''desc'') init)) = [] \<and>
   sortBy (clearFilters (step (InputFilters ''TODO'' ''1'' ''test'' ''2025-01-01''
      ''2025-12-31'' ''title'' ''desc'') init)) = ''priority'' \<and>
   length (http_pending (clearFilters (step (InputFilters ''TODO'' ''1'' ''test'' ''2025-01-01''
      ''2025-12-31'' ''title'' ''desc'') init))) = 1"
  using clearFilters_defaults [of "step (InputFilters ''TODO'' ''1'' ''test'' ''2025-01-01''
      ''2025-12-31'' ''title'' ''desc'') init"]
  by (simp add: init_fields)

subsection \<open>Deleting a task\<close>









subsection \<open>The loading flag\<close>













subsection \<open>The task collections\<close>

lemma tasks_loadTasks:
  "tasks (loadTasks c) = tasks c" "filteredTasks (loadTasks c) = filteredTasks c"
  by (simp_all add: loadTasks_state)

lemma tasks_saveTask:
  "tasks (saveTask c) = tasks c \<and> filteredTasks (saveTask c) = filteredTasks c"
proof (cases "fst (validateTask c)")
  case True
  then show ?thesis by (simp add: saveTask_accepted)
next
  case False
  from saveTask_rejected_state [OF False] obtain msg
    where "saveTask c = c\<lparr>alerts := alerts c @ [msg]\<rparr>" by blast
  then show ?thesis by simp
qed

lemma tasks_deleteTask:
  "tasks (deleteTask ident answer c) = tasks c"
  "filteredTasks (deleteTask ident answer c) = filteredTasks c"
  by (cases ident; cases answer; simp add: deleteTask_def subscribe_def)+

lemma tasks_ngOnDestroy:
  "tasks (ngOnDestroy c) = tasks c" "filteredTasks (ngOnDestroy c) = filteredTasks c"
  by (simp_all add: ngOnDestroy_def finalize_def)

lemma tasks_complete:
  "tasks (loadTasks_complete (Success d) c) = d"
  "filteredTasks (loadTasks_complete (Success d) c) = d"
  "tasks (loadTasks_complete (Failure err) c) = tasks c"
  "filteredTasks (loadTasks_complete (Failure err) c) = filteredTasks c"
  "tasks (saveTask_complete r c) = tasks c"
  "filteredTasks (saveTask_complete r c) = filteredTasks c"
  "tasks (deleteTask_complete r c) = tasks c"
  "filteredTasks (deleteTask_complete r c) = filteredTasks c"
  by (simp_all add: loadTasks_complete_def saveTask_complete_def deleteTask_complete_def
      finalize_def closeModal_def loadTasks_state split: response.splits)

lemma tasks_respond:
  "tasks (respond k r c) =
     (if k < length (http_pending c) \<and> fst (http_pending c ! k) = LoadSub
      then (case r of Success d \<Rightarrow> d | Failure err \<Rightarrow> tasks c) else tasks c)"
  "filteredTasks (respond k r c) =
     (if k < length (http_pending c) \<and> fst (http_pending c ! k) = LoadSub
      then (case r of Success d \<Rightarrow> d | Failure err \<Rightarrow> filteredTasks c) else filteredTasks c)"
  by (simp_all add: respond_def Let_def tasks_complete split: subscriber.splits response.splits)

lemma only_load_response_writes:
  assumes "tasks (step e c) \<noteq> tasks c \<or> filteredTasks (step e c) \<noteq> filteredTasks c"
  shows "\<exists>k d. e = Respond k (Success d) \<and> k < length (http_pending c) \<and>
      fst (http_pending c ! k) = LoadSub \<and> tasks (step e c) = d \<and>
      filteredTasks (step e c) = d"
proof (cases e)
  case (Respond k r)
  with assms show ?thesis
    by (cases r) (auto simp: tasks_respond split: if_splits)
qed (use assms in \<open>simp_all add: ngOnInit_def applyFilters_def clearFilters_def tasks_loadTasks
      openCreateModal_def openEditModal_def closeModal_def viewTaskDetails_def
      closeDetailsModal_def tasks_saveTask tasks_deleteTask tasks_ngOnDestroy\<close>)

lemma step_identical:
  assumes "tasks c = filteredTasks c"
  shows "tasks (step e c) = filteredTasks (step e c)"
proof (cases "tasks (step e c) \<noteq> tasks c \<or> filteredTasks (step e c) \<noteq> filteredTasks c")
  case True
  from only_load_response_writes [OF True] show ?thesis by auto
next
  case False
  with assms show ?thesis by simp
qed

lemma run_identical:
  "tasks c = filteredTasks c \<Longrightarrow> tasks (run es c) = filteredTasks (run es c)"
  by (induction es arbitrary: c) (simp_all add: step_identical)

text \<open>
  Claim C10. In every state the controller reaches from its initial state, \<open>tasks\<close> and
  \<open>filteredTasks\<close> are identical, so \<open>getTaskCountByStatus s\<close> is the number of tasks of
  status \<open>s\<close> in the whole collection last loaded. The only event that writes either
  collection is the successful response to a request of \<open>loadTasks\<close>, and it assigns the
  response to both.
\<close>

theorem tasks_filteredTasks_identical:
  "tasks (run es init) = filteredTasks (run es init) \<and>
   getTaskCountByStatus s (run es init) =
     length (filter (\<lambda>task. status task = s) (tasks (run es init))) \<and>
   (tasks (step e c) \<noteq> tasks c \<or> filteredTasks (step e c) \<noteq> filteredTasks c \<longrightarrow>
      (\<exists>k d. e = Respond k (Success d) \<and> k < length (http_pending c) \<and>
         fst (http_pending c ! k) = LoadSub \<and> tasks (step e c) = d \<and>
         filteredTasks (step e c) = d))"
proof -
  have "tasks (run es init) = filteredTasks (run es init)"
    by (rule run_identical) (simp add: init_fields)
  then show ?thesis
    using only_load_response_writes [of e c] by (simp add: getTaskCountByStatus_def)
qed

theorem tasks_filteredTasks_identical_witness:
  "tasks (run [NgOnInit, Respond 0 (Success mockTasks)] init) = mockTasks \<and>
   filteredTasks (run [NgOnInit, Respond 0 (Success mockTasks)] init) = mockTasks \<and>
   getTaskCountByStatus ''TODO'' (run [NgOnInit, Respond 0 (Success mockTasks)] init) = 1 \<and>
   getTaskCountByStatus ''IN_PROGRESS'' (run [NgOnInit, Respond 0 (Success mockTasks)] init) = 1 \<and>
   getTaskCountByStatus ''DONE'' (run [NgOnInit, Respond 0 (Success mockTasks)] init) = 1"
proof -
  have t: "tasks (run [NgOnInit, Respond 0 (Success mockTasks)] init) = mockTasks"
    by (simp add: ngOnInit_def tasks_respond loadTasks_state init_fields)
  show ?thesis
    using t
      tasks_filteredTasks_identical [where es = "[NgOnInit, Respond 0 (Success mockTasks)]"
        and s = "''TODO''" and e = "Respond 0 (Success mockTasks)" and c = "step NgOnInit init"]
      tasks_filteredTasks_identical [where es = "[NgOnInit, Respond 0 (Success mockTasks)]"
        and s = "''IN_PROGRESS''"]
      tasks_filteredTasks_identical [where es = "[NgOnInit, Respond 0 (Success mockTasks)]"
        and s = "''DONE''"]
    by (simp add: mockTasks_def)
qed

end
